theory Spec2Isabelle
  imports Main "HOL-Library.Char_ord" "HOL-Library.List_Lexorder" "HOL-Library.Multiset"
begin

section \<open>Data model\<close>

text \<open>
  The backend is a FastAPI application over two SQLModel tables (\<^verbatim>\<open>models.py\<close>).
  A Python \<^verbatim>\<open>str\<close> is modelled as a \<open>string\<close> whose elements stand for the
  characters that Python's slicing counts; a \<^verbatim>\<open>datetime\<close> in UTC is an \<open>int\<close>
  (microseconds since the epoch), so that \<open>\<le>\<close> is chronological order.
\<close>

type_synonym datetime = int

text \<open>\<^verbatim>\<open>class User(SQLModel, table=True)\<close>: \<open>id\<close> is the primary key, \<open>email\<close> is unique.\<close>

record User =
  User_id :: string
  User_email :: string
  User_hashed_password :: string
  User_name :: "string option"
  User_created_at :: datetime

text \<open>\<^verbatim>\<open>class Task(SQLModel, table=True)\<close>: \<open>id\<close> is the primary key, assigned by the store.\<close>

record Task =
  Task_id :: int
  Task_user_id :: string
  Task_title :: string
  Task_description :: "string option"
  Task_completed :: bool
  Task_created_at :: datetime
  Task_updated_at :: datetime

text \<open>\<^verbatim>\<open>class Status(str, Enum)\<close> of the application module.\<close>

datatype Status = pending | in_progress | completed

text \<open>
  Everything a handler can raise. \<open>HTTPException status_code detail headers\<close> is FastAPI's
  exception (\<open>headers\<close> is \<open>None\<close> when the source passes none); \<open>IntegrityError\<close> is what
  the store raises at commit when a table constraint is violated; \<open>Raised name\<close> is an
  exception of the password-hashing library, which the source never catches;
  \<open>InvalidToken\<close> is the single failure of the token service.
\<close>

datatype error =
    HTTPException nat string "(string \<times> string) list option"
  | IntegrityError
  | Raised string
  | InvalidToken

section \<open>Credential hasher (\<^verbatim>\<open>security.py\<close>)\<close>

text \<open>
  \<^verbatim>\<open>pwd_context = CryptContext(schemes=["bcrypt"], deprecated="auto")\<close> is an object of
  the passlib library. Its two methods are parameters of the model: \<open>ctx_hash salt secret\<close>
  (the salt is the randomness \<^verbatim>\<open>hash\<close> draws) and \<open>ctx_verify secret hash\<close>. Either may
  raise, so both return a sum.
\<close>

record CryptContext =
  ctx_hash :: "string \<Rightarrow> string \<Rightarrow> error + string"
  ctx_verify :: "string \<Rightarrow> string \<Rightarrow> error + bool"

text \<open>
  \<^verbatim>\<open>
  def verify_password(plain_password: str, hashed_password: str) -> bool:
      truncated_password = plain_password[:72]
      return pwd_context.verify(truncated_password, hashed_password)
  \<close>
\<close>

definition verify_password :: "CryptContext \<Rightarrow> string \<Rightarrow> string \<Rightarrow> error + bool" where
  "verify_password pwd_context plain_password hashed_password =
     (let truncated_password = take 72 plain_password
      in ctx_verify pwd_context truncated_password hashed_password)"

text \<open>
  \<^verbatim>\<open>
  def get_password_hash(password: str) -> str:
      truncated_password = password[:72]
      return pwd_context.hash(truncated_password)
  \<close>
\<close>

definition get_password_hash :: "CryptContext \<Rightarrow> string \<Rightarrow> string \<Rightarrow> error + string" where
  "get_password_hash pwd_context salt password =
     (let truncated_password = take 72 password
      in ctx_hash pwd_context salt truncated_password)"

text \<open>
  A small scheme instance for evaluating the model. Like bcrypt behind passlib it raises
  on a string it cannot identify as one of its hashes, and it refuses a secret that
  contains a NUL character or is longer than 72 characters, when hashing and when
  verifying; a hash is the tag \<open>$demo$\<close>, two salt characters and the secret.
\<close>

definition demo_context :: CryptContext where
  "demo_context =
     \<lparr> ctx_hash = (\<lambda>salt s.
         if CHR 0x00 \<in> set s then Inl (Raised ''NullPasswordError'')
         else if 72 < length s then Inl (Raised ''ValueError'')
         else Inr (''$demo$'' @ take 2 (salt @ ''..'') @ s)),
       ctx_verify = (\<lambda>s h.
         if take 6 h \<noteq> ''$demo$'' then Inl (Raised ''UnknownHashError'')
         else if CHR 0x00 \<in> set s then Inl (Raised ''NullPasswordError'')
         else if 72 < length s then Inl (Raised ''ValueError'')
         else Inr (drop 8 h = s)) \<rparr>"

section \<open>Token service\<close>

text \<open>
  \<^verbatim>\<open>config.py\<close> holds the process-wide settings: the signing secret (its absence is a
  start-up error), \<^verbatim>\<open>ALGORITHM = "HS256"\<close> and the token lifetime in minutes
  (30 unless the environment says otherwise).
\<close>

record config =
  SECRET_KEY :: string
  ACCESS_TOKEN_EXPIRE_MINUTES :: int

text \<open>A \<^verbatim>\<open>timedelta(minutes=m)\<close> in microseconds.\<close>

definition minutes :: "int \<Rightarrow> int" where
  "minutes m = m * 60 * 1000000"

text \<open>
  The payload of a session token: the subject it asserts (the application reads it with
  \<^verbatim>\<open>payload.get("sub")\<close>, which may find none), the time of issue and the expiry.
\<close>

record payload =
  subject :: "string option"
  issued_at :: datetime
  expires_at :: datetime

text \<open>
  The signature is symbolic: \<open>HS256 key p\<close> is the keyed digest of payload \<open>p\<close> under
  \<open>key\<close>, and two digests are equal only if key and payload are. A bearer string either
  does not parse (\<open>Malformed\<close>) or carries a payload and a signature.
\<close>

datatype signature = HS256 string payload

datatype token = Malformed string | Signed payload signature

text \<open>
  Modelled from the spec: the module \<^verbatim>\<open>auth\<close> (\<^verbatim>\<open>create_access_token\<close>,
  \<^verbatim>\<open>verify_token\<close>) is imported by the application but is not among the source files.
  Section 4.2: \<^emph>\<open>issue(subject_id, now)\<close> produces a signed token embedding
  \<open>subject_id\<close>, \<open>issued_at = now\<close>, \<open>expires_at = now + EXPIRY_DURATION\<close>. The call
  sites pass \<^verbatim>\<open>data={"sub": user.id}\<close>.
\<close>

definition create_access_token :: "config \<Rightarrow> string \<Rightarrow> datetime \<Rightarrow> token" where
  "create_access_token cfg sub now =
     (let p = \<lparr> subject = Some sub, issued_at = now,
                 expires_at = now + minutes (ACCESS_TOKEN_EXPIRE_MINUTES cfg) \<rparr>
      in Signed p (HS256 (SECRET_KEY cfg) p))"

text \<open>
  Modelled from the spec: \<^verbatim>\<open>verify_token\<close> of the absent module \<^verbatim>\<open>auth\<close>. Section 4.2:
  \<^emph>\<open>verify(token, now)\<close> fails with \<open>InvalidToken\<close> when the signature does not match,
  the payload is malformed, or \<open>now \<ge> expires_at\<close>, with a single error kind for all
  three. The call sites read the subject from the returned payload, so the payload is
  what is returned; \<open>now\<close> is the clock at the time of the call.
\<close>

definition verify_token :: "config \<Rightarrow> token \<Rightarrow> datetime \<Rightarrow> error + payload" where
  "verify_token cfg tok now =
     (case tok of
        Malformed _ \<Rightarrow> Inl InvalidToken
      | Signed p sig \<Rightarrow>
          if sig \<noteq> HS256 (SECRET_KEY cfg) p then Inl InvalidToken
          else if expires_at p \<le> now then Inl InvalidToken
          else Inr p)"

section \<open>The store\<close>

text \<open>
  The relational store holds the two tables, each a list of rows in storage order. A
  query without \<^verbatim>\<open>order_by\<close> returns the matching rows in that order.
\<close>

record database =
  users :: "User list"
  tasks :: "Task list"

text \<open>\<^verbatim>\<open>Result.first()\<close>: the first row, or \<^verbatim>\<open>None\<close>.\<close>

definition first :: "'a list \<Rightarrow> 'a option" where
  "first rows = (case rows of [] \<Rightarrow> None | r # _ \<Rightarrow> Some r)"

text \<open>
  Committing a new user row. \<^verbatim>\<open>models.py\<close> declares \<^verbatim>\<open>id\<close> as primary key and
  \<^verbatim>\<open>email\<close> with \<^verbatim>\<open>unique=True\<close>; the store refuses a row that violates either.
\<close>

definition insert_user :: "database \<Rightarrow> User \<Rightarrow> error + database" where
  "insert_user db u =
     (if User_id u \<in> set (map User_id (users db)) then Inl IntegrityError
      else if User_email u \<in> set (map User_email (users db)) then Inl IntegrityError
      else Inr (db\<lparr>users := users db @ [u]\<rparr>))"

text \<open>
  Committing a new task row: the store assigns the integer primary key, one more than the
  largest key in use (1 in an empty table).
\<close>

definition next_task_id :: "database \<Rightarrow> int" where
  "next_task_id db = (if tasks db = [] then 1 else Max (set (map Task_id (tasks db))) + 1)"

text \<open>Committing a changed task row: \<^verbatim>\<open>UPDATE task ... WHERE id = <primary key>\<close>.\<close>

definition update_row :: "database \<Rightarrow> Task \<Rightarrow> database" where
  "update_row db task =
     db\<lparr>tasks := map (\<lambda>r. if Task_id r = Task_id task then task else r) (tasks db)\<rparr>"

text \<open>\<^verbatim>\<open>db.delete(task)\<close> and commit: \<^verbatim>\<open>DELETE FROM task WHERE id = <primary key>\<close>.\<close>

definition delete_row :: "database \<Rightarrow> Task \<Rightarrow> database" where
  "delete_row db task = db\<lparr>tasks := filter (\<lambda>r. Task_id r \<noteq> Task_id task) (tasks db)\<rparr>"

text \<open>The constraints the tables are declared with.\<close>

definition task_pk :: "database \<Rightarrow> bool" where
  "task_pk db \<longleftrightarrow> distinct (map Task_id (tasks db))"

definition user_pk :: "database \<Rightarrow> bool" where
  "user_pk db \<longleftrightarrow> distinct (map User_id (users db))"

definition email_unique :: "database \<Rightarrow> bool" where
  "email_unique db \<longleftrightarrow> distinct (map User_email (users db))"

section \<open>Request and response models\<close>

text \<open>The pydantic models of the application module. The handlers receive them validated.\<close>

record UserCreate =
  UserCreate_email :: string
  UserCreate_password :: string

record OAuth2PasswordRequestForm =
  form_username :: string
  form_password :: string

record Token =
  access_token :: token
  token_type :: string

text \<open>
  \<^verbatim>\<open>TaskCreate\<close>: \<^verbatim>\<open>status: Status = Field(default=Status.pending)\<close>, so a request without
  a status arrives with \<open>pending\<close>. \<open>TaskCreate_of\<close> is that construction from the request
  body, in which description and status are optional.
\<close>

record TaskCreate =
  TaskCreate_title :: string
  TaskCreate_description :: "string option"
  TaskCreate_status :: Status

definition TaskCreate_of :: "string \<Rightarrow> string option \<Rightarrow> Status option \<Rightarrow> TaskCreate" where
  "TaskCreate_of title description status =
     \<lparr> TaskCreate_title = title, TaskCreate_description = description,
       TaskCreate_status = (case status of None \<Rightarrow> pending | Some s \<Rightarrow> s) \<rparr>"

text \<open>
  \<^verbatim>\<open>TaskUpdate\<close>: every field is \<^verbatim>\<open>Optional\<close> with default \<^verbatim>\<open>None\<close>, and the handler reads
  it with \<^verbatim>\<open>dict(exclude_unset=True)\<close>, which tells a field the request left out
  (\<open>Unset\<close>) from one it supplied (\<open>Supplied v\<close>, where \<open>v\<close> may be \<^verbatim>\<open>None\<close>).
\<close>

datatype 'a field = Unset | Supplied 'a

record TaskUpdate =
  TaskUpdate_title :: "string option field"
  TaskUpdate_description :: "string option field"
  TaskUpdate_status :: "Status option field"

section \<open>Account endpoints\<close>

text \<open>
  \<^verbatim>\<open>register_user\<close> (both application versions; they differ only in passing the token
  lifetime explicitly):
  \<^verbatim>\<open>
  if db.exec(select(User).where(User.email == user_in.email)).first():
      raise HTTPException(status_code=409, detail="Email already registered")
  db_user = User(id=str(uuid4()), email=user_in.email,
                 hashed_password=get_password_hash(user_in.password),
                 created_at=datetime.now(timezone.utc))
  db.add(db_user); db.commit(); db.refresh(db_user)
  access_token = create_access_token(data={"sub": db_user.id})
  return {"access_token": access_token, "token_type": "bearer"}
  \<close>
  The identifier \<^verbatim>\<open>uuid4()\<close> draws, the salt and the two clock readings (the row's
  \<^verbatim>\<open>created_at\<close>, the token's issue time) are arguments. The result is the response
  together with the store afterwards.
\<close>

definition register_user ::
  "CryptContext \<Rightarrow> config \<Rightarrow> database \<Rightarrow> UserCreate \<Rightarrow> string \<Rightarrow> string \<Rightarrow> datetime \<Rightarrow> datetime
     \<Rightarrow> (error + Token) \<times> database" where
  "register_user pwd_context cfg db user_in uuid salt now now_token =
     (case first (filter (\<lambda>u. User_email u = UserCreate_email user_in) (users db)) of
        Some existing_user \<Rightarrow> (Inl (HTTPException 409 ''Email already registered'' None), db)
      | None \<Rightarrow>
          (case get_password_hash pwd_context salt (UserCreate_password user_in) of
             Inl e \<Rightarrow> (Inl e, db)
           | Inr hashed_password \<Rightarrow>
               (let db_user = \<lparr> User_id = uuid, User_email = UserCreate_email user_in,
                                 User_hashed_password = hashed_password, User_name = None,
                                 User_created_at = now \<rparr>
                in case insert_user db db_user of
                     Inl e \<Rightarrow> (Inl e, db)
                   | Inr db' \<Rightarrow>
                       (Inr \<lparr> access_token = create_access_token cfg (User_id db_user) now_token,
                              token_type = ''bearer'' \<rparr>, db'))))"

text \<open>
  \<^verbatim>\<open>login_for_access_token\<close>, version of 2026-02-14:
  \<^verbatim>\<open>
  user = db.exec(select(User).where(User.email == form_data.username)).first()
  if not user:
      raise HTTPException(status_code=401, detail="Incorrect username or password",
                          headers={"WWW-Authenticate": "Bearer"})
  is_password_correct = verify_password(form_data.password, user.hashed_password)
  if not is_password_correct:
      raise HTTPException(status_code=401, detail="Incorrect username or password",
                          headers={"WWW-Authenticate": "Bearer"})
  access_token = create_access_token(data={"sub": user.id}, expires_delta=...)
  return {"access_token": access_token, "token_type": "bearer"}
  \<close>
  Login writes nothing, so only the response is returned.
\<close>

definition login_for_access_token_0214 ::
  "CryptContext \<Rightarrow> config \<Rightarrow> database \<Rightarrow> OAuth2PasswordRequestForm \<Rightarrow> datetime \<Rightarrow> error + Token" where
  "login_for_access_token_0214 pwd_context cfg db form_data now =
     (case first (filter (\<lambda>u. User_email u = form_username form_data) (users db)) of
        None \<Rightarrow> Inl (HTTPException 401 ''Incorrect username or password''
                       (Some [(''WWW-Authenticate'', ''Bearer'')]))
      | Some user \<Rightarrow>
          (case verify_password pwd_context (form_password form_data) (User_hashed_password user) of
             Inl e \<Rightarrow> Inl e
           | Inr is_password_correct \<Rightarrow>
               if \<not> is_password_correct
               then Inl (HTTPException 401 ''Incorrect username or password''
                           (Some [(''WWW-Authenticate'', ''Bearer'')]))
               else Inr \<lparr> access_token = create_access_token cfg (User_id user) now,
                          token_type = ''bearer'' \<rparr>))"

text \<open>
  Version of 2026-02-15, one combined test:
  \<^verbatim>\<open>
  user = db.exec(select(User).where(User.email == form_data.username)).first()
  if not user or not verify_password(form_data.password, user.hashed_password):
      raise HTTPException(status_code=401, detail="Incorrect username or password",
                          headers={"WWW-Authenticate": "Bearer"})
  access_token = create_access_token(data={"sub": user.id})
  return {"access_token": access_token, "token_type": "bearer"}
  \<close>
  The \<^verbatim>\<open>or\<close> evaluates \<^verbatim>\<open>verify_password\<close> only when a user was found.
\<close>

definition login_for_access_token_0215 ::
  "CryptContext \<Rightarrow> config \<Rightarrow> database \<Rightarrow> OAuth2PasswordRequestForm \<Rightarrow> datetime \<Rightarrow> error + Token" where
  "login_for_access_token_0215 pwd_context cfg db form_data now =
     (let user = first (filter (\<lambda>u. User_email u = form_username form_data) (users db)) in
      case user of
        None \<Rightarrow> Inl (HTTPException 401 ''Incorrect username or password''
                       (Some [(''WWW-Authenticate'', ''Bearer'')]))
      | Some u \<Rightarrow>
          (case verify_password pwd_context (form_password form_data) (User_hashed_password u) of
             Inl e \<Rightarrow> Inl e
           | Inr ok \<Rightarrow>
               if \<not> ok
               then Inl (HTTPException 401 ''Incorrect username or password''
                           (Some [(''WWW-Authenticate'', ''Bearer'')]))
               else Inr \<lparr> access_token = create_access_token cfg (User_id u) now,
                          token_type = ''bearer'' \<rparr>))"

text \<open>
  \<^verbatim>\<open>get_current_user\<close>, version of 2026-02-14:
  \<^verbatim>\<open>
  payload = verify_token(token)
  user_id: str = payload.get("sub")
  if user_id is None:
      raise HTTPException(status_code=401, detail="Could not validate credentials",
                          headers={"WWW-Authenticate": "Bearer"})
  user = db.exec(select(User).where(User.id == user_id)).first()
  if user is None:
      raise HTTPException(status_code=404, detail="User not found")
  return user
  \<close>
\<close>

definition get_current_user_0214 :: "config \<Rightarrow> database \<Rightarrow> token \<Rightarrow> datetime \<Rightarrow> error + User" where
  "get_current_user_0214 cfg db tok now =
     (case verify_token cfg tok now of
        Inl e \<Rightarrow> Inl e
      | Inr payload \<Rightarrow>
          (case subject payload of
             None \<Rightarrow> Inl (HTTPException 401 ''Could not validate credentials''
                            (Some [(''WWW-Authenticate'', ''Bearer'')]))
           | Some user_id \<Rightarrow>
               (case first (filter (\<lambda>u. User_id u = user_id) (users db)) of
                  None \<Rightarrow> Inl (HTTPException 404 ''User not found'' None)
                | Some user \<Rightarrow> Inr user)))"

text \<open>
  Version of 2026-02-15:
  \<^verbatim>\<open>
  payload = verify_token(token)
  user_id = payload.get("sub")
  if not user_id or (user := db.exec(select(User).where(User.id == user_id)).first()) is None:
      raise HTTPException(status_code=401, detail="Could not validate credentials")
  return user
  \<close>
  \<^verbatim>\<open>not user_id\<close> holds for \<^verbatim>\<open>None\<close> and for the empty string.
\<close>

definition get_current_user_0215 :: "config \<Rightarrow> database \<Rightarrow> token \<Rightarrow> datetime \<Rightarrow> error + User" where
  "get_current_user_0215 cfg db tok now =
     (case verify_token cfg tok now of
        Inl e \<Rightarrow> Inl e
      | Inr payload \<Rightarrow>
          (case subject payload of
             None \<Rightarrow> Inl (HTTPException 401 ''Could not validate credentials'' None)
           | Some user_id \<Rightarrow>
               if user_id = [] then Inl (HTTPException 401 ''Could not validate credentials'' None)
               else
                 (case first (filter (\<lambda>u. User_id u = user_id) (users db)) of
                    None \<Rightarrow> Inl (HTTPException 401 ''Could not validate credentials'' None)
                  | Some user \<Rightarrow> Inr user)))"

section \<open>Task endpoints\<close>

text \<open>
  Every task handler depends on \<^verbatim>\<open>get_current_user\<close>; it is modelled with the resolved
  \<open>current_user\<close> as argument.

  \<^verbatim>\<open>create_task\<close>:
  \<^verbatim>\<open>
  db_task = Task(title=task_in.title, description=task_in.description,
                 completed=(task_in.status == Status.completed),
                 user_id=current_user.id,
                 created_at=datetime.now(timezone.utc),
                 updated_at=datetime.now(timezone.utc))
  db.add(db_task); db.commit(); db.refresh(db_task)
  return db_task
  \<close>
  The clock is read twice; \<open>now_created\<close> and \<open>now_updated\<close> are the two readings in the
  order the source takes them.
\<close>

definition create_task ::
  "database \<Rightarrow> User \<Rightarrow> TaskCreate \<Rightarrow> datetime \<Rightarrow> datetime \<Rightarrow> Task \<times> database" where
  "create_task db current_user task_in now_created now_updated =
     (let db_task = \<lparr> Task_id = next_task_id db,
                       Task_user_id = User_id current_user,
                       Task_title = TaskCreate_title task_in,
                       Task_description = TaskCreate_description task_in,
                       Task_completed = (TaskCreate_status task_in = completed),
                       Task_created_at = now_created,
                       Task_updated_at = now_updated \<rparr>
      in (db_task, db\<lparr>tasks := tasks db @ [db_task]\<rparr>))"

text \<open>
  \<^verbatim>\<open>list_tasks\<close>, version of 2026-02-14:
  \<^verbatim>\<open>
  query = select(Task).where(Task.user_id == current_user.id)
  if status:
      if status == Status.completed:
          query = query.where(Task.completed == True)
      elif status == Status.pending or status == Status.in_progress:
          query = query.where(Task.completed == False)
  if sort == "created_at":
      query = query.order_by(Task.created_at)
  elif sort == "title":
      query = query.order_by(Task.title)
  tasks = db.exec(query).all()
  return tasks
  \<close>
  \<^verbatim>\<open>order_by\<close> is ascending; it is modelled by \<open>sort_key\<close>. The order of strings is the
  store's collation, given by the key function \<open>collate\<close>.
\<close>

definition list_tasks_0214 ::
  "(string \<Rightarrow> 'k::linorder) \<Rightarrow> database \<Rightarrow> User \<Rightarrow> Status option \<Rightarrow> string option \<Rightarrow> Task list" where
  "list_tasks_0214 collate db current_user status sort' =
     (let query = filter (\<lambda>t. Task_user_id t = User_id current_user) (tasks db);
          query = (case status of
                     None \<Rightarrow> query
                   | Some st \<Rightarrow>
                       if st = completed then filter (\<lambda>t. Task_completed t = True) query
                       else if st = pending \<or> st = in_progress
                       then filter (\<lambda>t. Task_completed t = False) query
                       else query)
      in if sort' = Some ''created_at'' then sort_key Task_created_at query
         else if sort' = Some ''title'' then sort_key (\<lambda>t. collate (Task_title t)) query
         else query)"

text \<open>
  Version of 2026-02-15, whose only query parameter is \<^verbatim>\<open>status_filter\<close>:
  \<^verbatim>\<open>
  query = select(Task).where(Task.user_id == current_user.id)
  if status_filter:
      query = query.where(Task.completed == (status_filter == Status.completed))
  return db.exec(query).all()
  \<close>
\<close>

definition list_tasks_0215 :: "database \<Rightarrow> User \<Rightarrow> Status option \<Rightarrow> Task list" where
  "list_tasks_0215 db current_user status_filter =
     (let query = filter (\<lambda>t. Task_user_id t = User_id current_user) (tasks db)
      in case status_filter of
           None \<Rightarrow> query
         | Some st \<Rightarrow> filter (\<lambda>t. Task_completed t = (st = completed)) query)"

text \<open>
  The lookup all handlers for a single task start with:
  \<^verbatim>\<open>
  task = db.exec(select(Task).where(Task.id == id, Task.user_id == current_user.id)).first()
  if not task:
      raise HTTPException(status_code=404, detail="Task not found")
  \<close>
  \<^verbatim>\<open>get_task\<close> returns the task found.
\<close>

definition get_task :: "database \<Rightarrow> User \<Rightarrow> int \<Rightarrow> error + Task" where
  "get_task db current_user id' =
     (case first (filter (\<lambda>t. Task_id t = id' \<and> Task_user_id t = User_id current_user) (tasks db)) of
        None \<Rightarrow> Inl (HTTPException 404 ''Task not found'' None)
      | Some task \<Rightarrow> Inr task)"

text \<open>
  \<^verbatim>\<open>update_task\<close>, after the lookup:
  \<^verbatim>\<open>
  update_data = task_update.dict(exclude_unset=True)
  if "status" in update_data:
      task.completed = (update_data["status"] == Status.completed)
      del update_data["status"]
  for key, value in update_data.items():
      setattr(task, key, value)
  task.updated_at = datetime.now(timezone.utc)
  db.add(task); db.commit(); db.refresh(task)
  return task
  \<close>
  A supplied \<^verbatim>\<open>title\<close> of \<^verbatim>\<open>None\<close> is assigned like any value and violates the column's
  \<^verbatim>\<open>nullable=False\<close> at commit.
\<close>

definition update_task ::
  "database \<Rightarrow> User \<Rightarrow> int \<Rightarrow> TaskUpdate \<Rightarrow> datetime \<Rightarrow> (error + Task) \<times> database" where
  "update_task db current_user id' task_update now =
     (case first (filter (\<lambda>t. Task_id t = id' \<and> Task_user_id t = User_id current_user) (tasks db)) of
        None \<Rightarrow> (Inl (HTTPException 404 ''Task not found'' None), db)
      | Some task \<Rightarrow>
          (let task = (case TaskUpdate_status task_update of
                         Unset \<Rightarrow> task
                       | Supplied st \<Rightarrow> task\<lparr>Task_completed := (st = Some completed)\<rparr>);
               task = (case TaskUpdate_description task_update of
                         Unset \<Rightarrow> task
                       | Supplied d \<Rightarrow> task\<lparr>Task_description := d\<rparr>)
           in case TaskUpdate_title task_update of
                Supplied None \<Rightarrow> (Inl IntegrityError, db)
              | Supplied (Some title) \<Rightarrow>
                  (let task = task\<lparr>Task_title := title, Task_updated_at := now\<rparr>
                   in (Inr task, update_row db task))
              | Unset \<Rightarrow>
                  (let task = task\<lparr>Task_updated_at := now\<rparr>
                   in (Inr task, update_row db task))))"

text \<open>
  \<^verbatim>\<open>delete_task\<close>, after the lookup:
  \<^verbatim>\<open>
  db.delete(task); db.commit()
  return {"message": "Task deleted successfully"}
  \<close>
\<close>

definition delete_task :: "database \<Rightarrow> User \<Rightarrow> int \<Rightarrow> (error + string) \<times> database" where
  "delete_task db current_user id' =
     (case first (filter (\<lambda>t. Task_id t = id' \<and> Task_user_id t = User_id current_user) (tasks db)) of
        None \<Rightarrow> (Inl (HTTPException 404 ''Task not found'' None), db)
      | Some task \<Rightarrow> (Inr ''Task deleted successfully'', delete_row db task))"

text \<open>
  \<^verbatim>\<open>toggle_task_completion\<close> (version of 2026-02-14 only), after the lookup:
  \<^verbatim>\<open>
  task.completed = not task.completed
  task.updated_at = datetime.now(timezone.utc)
  db.add(task); db.commit(); db.refresh(task)
  return task
  \<close>
\<close>

definition toggle_task_completion ::
  "database \<Rightarrow> User \<Rightarrow> int \<Rightarrow> datetime \<Rightarrow> (error + Task) \<times> database" where
  "toggle_task_completion db current_user id' now =
     (case first (filter (\<lambda>t. Task_id t = id' \<and> Task_user_id t = User_id current_user) (tasks db)) of
        None \<Rightarrow> (Inl (HTTPException 404 ''Task not found'' None), db)
      | Some task \<Rightarrow>
          (let task = task\<lparr>Task_completed := \<not> Task_completed task, Task_updated_at := now\<rparr>
           in (Inr task, update_row db task)))"

section \<open>Error kinds\<close>

text \<open>
  The taxonomy the specification names outcomes by (its section 7), read off the status
  code: 409 is \<open>Conflict\<close>, 401 \<open>Unauthenticated\<close>, 404 \<open>NotFound\<close>, 403 \<open>Forbidden\<close>,
  422 \<open>Validation\<close>. A failed token check is \<open>Unauthenticated\<close>; anything else a handler
  does not catch ends the request with a server error.
\<close>

datatype error_kind = Conflict | Unauthenticated | NotFound | Forbidden | Validation | ServerError

fun kind_of :: "error \<Rightarrow> error_kind" where
  "kind_of (HTTPException code _ _) =
     (if code = 409 then Conflict
      else if code = 401 then Unauthenticated
      else if code = 404 then NotFound
      else if code = 403 then Forbidden
      else if code = 422 then Validation
      else ServerError)"
| "kind_of InvalidToken = Unauthenticated"
| "kind_of IntegrityError = ServerError"
| "kind_of (Raised _) = ServerError"

section \<open>Values for evaluation\<close>

definition demo_config :: config where
  "demo_config = \<lparr> SECRET_KEY = ''s3cret'', ACCESS_TOKEN_EXPIRE_MINUTES = 30 \<rparr>"

definition alice :: User where
  "alice = \<lparr> User_id = ''a-1'', User_email = ''a@x.com'',
             User_hashed_password = ''$demo$..password123'', User_name = None,
             User_created_at = 100 \<rparr>"

definition bob :: User where
  "bob = \<lparr> User_id = ''b-2'', User_email = ''b@x.com'',
           User_hashed_password = ''$demo$..hunter2hunter2'', User_name = None,
           User_created_at = 200 \<rparr>"

definition task1 :: Task where
  "task1 = \<lparr> Task_id = 1, Task_user_id = ''a-1'', Task_title = ''T1'',
             Task_description = Some ''first'', Task_completed = False,
             Task_created_at = 300, Task_updated_at = 300 \<rparr>"

definition task2 :: Task where
  "task2 = \<lparr> Task_id = 2, Task_user_id = ''b-2'', Task_title = ''B'',
             Task_description = None, Task_completed = True,
             Task_created_at = 400, Task_updated_at = 450 \<rparr>"

definition task3 :: Task where
  "task3 = \<lparr> Task_id = 3, Task_user_id = ''a-1'', Task_title = ''A'',
             Task_description = None, Task_completed = True,
             Task_created_at = 250, Task_updated_at = 500 \<rparr>"

definition demo_db :: database where
  "demo_db = \<lparr> users = [alice, bob], tasks = [task1, task2, task3] \<rparr>"

section \<open>Facts about the store and the demo values\<close>

lemma first_eq_None: "first rows = None \<longleftrightarrow> rows = []"
  by (simp add: first_def split: list.splits)

lemma first_filter_Some: "first (filter P rows) = Some r \<Longrightarrow> r \<in> set rows \<and> P r"
proof -
  assume a: "first (filter P rows) = Some r"
  then obtain rest where "filter P rows = r # rest"
    by (auto simp add: first_def split: list.splits)
  then have "r \<in> set (filter P rows)" by simp
  then show ?thesis by simp
qed

text \<open>An accepted row keeps the declared constraints of the user table.\<close>

lemma insert_user_constraints:
  assumes "insert_user db u = Inr db'" and "user_pk db" and "email_unique db"
  shows "user_pk db' \<and> email_unique db'"
  using assms by (auto simp add: insert_user_def user_pk_def email_unique_def split: if_splits)

text \<open>What a successful registration did: the email was free, and exactly one row was added.\<close>

lemma register_user_success:
  assumes "register_user c cfg db user_in uuid salt now now_token = (Inr tok, db')"
  shows "\<exists>h. filter (\<lambda>u. User_email u = UserCreate_email user_in) (users db) = [] \<and>
             get_password_hash c salt (UserCreate_password user_in) = Inr h \<and>
             db' = db\<lparr>users := users db @
                      [\<lparr> User_id = uuid, User_email = UserCreate_email user_in,
                         User_hashed_password = h, User_name = None, User_created_at = now \<rparr>]\<rparr> \<and>
             tok = \<lparr> access_token = create_access_token cfg uuid now_token, token_type = ''bearer'' \<rparr>"
proof -
  let ?q = "filter (\<lambda>u. User_email u = UserCreate_email user_in) (users db)"
  from assms have n: "first ?q = None"
    by (cases "first ?q") (simp_all add: register_user_def)
  then have q: "?q = []" by (simp add: first_eq_None)
  from assms n obtain h where h: "get_password_hash c salt (UserCreate_password user_in) = Inr h"
    by (cases "get_password_hash c salt (UserCreate_password user_in)")
       (simp_all add: register_user_def)
  let ?u = "\<lparr> User_id = uuid, User_email = UserCreate_email user_in,
                         User_hashed_password = h, User_name = None, User_created_at = now \<rparr>"
  from assms n h obtain d where d: "insert_user db ?u = Inr d"
    by (cases "insert_user db ?u") (simp_all add: register_user_def)
  then have d': "d = db\<lparr>users := users db @ [?u]\<rparr>"
    by (simp add: insert_user_def split: if_splits)
  from assms n h d d' have "db' = db\<lparr>users := users db @ [?u]\<rparr>"
    and "tok = \<lparr> access_token = create_access_token cfg uuid now_token, token_type = ''bearer'' \<rparr>"
    by (simp_all add: register_user_def)
  with q h show ?thesis by blast
qed

text \<open>A token verifies until it expires, so the failures below are not the only outcome.\<close>

lemma verify_token_fresh:
  "now < issued + minutes (ACCESS_TOKEN_EXPIRE_MINUTES cfg) \<Longrightarrow>
   verify_token cfg (create_access_token cfg sub issued) now =
     Inr \<lparr> subject = Some sub, issued_at = issued,
           expires_at = issued + minutes (ACCESS_TOKEN_EXPIRE_MINUTES cfg) \<rparr>"
  by (simp add: verify_token_def create_access_token_def Let_def)

section \<open>Credential hasher: hashing and verification agree\<close>

text \<open>
  Claim C7, as stated, has \<open>verify_password p (get_password_hash p)\<close> true for every
  password \<open>p\<close>. \<open>get_password_hash\<close> hands the first 72 characters of \<open>p\<close> to the scheme
  and returns what the scheme does, so where the scheme refuses that secret there is no
  hash to verify: with a scheme that, like bcrypt, raises on a NUL character, hashing
  this password of nine characters ends in the exception, and so does a registration
  with it.
\<close>

theorem get_password_hash_nul_raises:
  "get_password_hash demo_context ''ab'' (''pass'' @ [CHR 0x00] @ ''word'')
     = Inl (Raised ''NullPasswordError'') \<and>
   register_user demo_context demo_config demo_db
     \<lparr> UserCreate_email = ''c@x.com'', UserCreate_password = ''pass'' @ [CHR 0x00] @ ''word'' \<rparr>
     ''c-3'' ''ab'' 600 601
     = (Inl (Raised ''NullPasswordError''), demo_db)"
proof -
  have g: "get_password_hash demo_context ''ab'' (''pass'' @ [CHR 0x00] @ ''word'')
             = Inl (Raised ''NullPasswordError'')"
    by (simp add: get_password_hash_def demo_context_def)
  have "register_user demo_context demo_config demo_db
     \<lparr> UserCreate_email = ''c@x.com'', UserCreate_password = ''pass'' @ [CHR 0x00] @ ''word'' \<rparr>
     ''c-3'' ''ab'' 600 601
     = (Inl (Raised ''NullPasswordError''), demo_db)"
    using g by (simp add: register_user_def first_def demo_db_def alice_def bob_def)
  with g show ?thesis by simp
qed

text \<open>
  Claim C7, amended. For every password \<open>p\<close>, of any length, \<open>get_password_hash\<close> and
  \<open>verify_password\<close> hand the scheme the same secret, the first 72 characters of \<open>p\<close>, and
  return the scheme's outcome unchanged; so passwords with the same first 72 characters
  hash and verify alike. Hence, whenever the scheme hashes that truncated secret to \<open>h\<close>
  and accepts \<open>h\<close> for it, \<open>get_password_hash\<close> returns \<open>h\<close> for \<open>p\<close> and \<open>verify_password\<close>
  accepts \<open>p\<close> against \<open>h\<close>; and when a registration with \<open>p\<close> has succeeded and the
  scheme accepts the hash it made for the truncated secret, a login with the email as
  stored and \<open>p\<close> succeeds, in both versions of the handler, with a token for the
  identity registered. Where the scheme refuses the truncated secret, hashing raises.
\<close>

theorem verify_password_same_truncation:
  "get_password_hash c salt p = ctx_hash c salt (take 72 p) \<and>
   verify_password c p h = ctx_verify c (take 72 p) h \<and>
   (\<forall>p'. take 72 p' = take 72 p \<longrightarrow>
      get_password_hash c salt p' = get_password_hash c salt p \<and>
      verify_password c p' h = verify_password c p h) \<and>
   (ctx_hash c salt (take 72 p) = Inr h \<and> ctx_verify c (take 72 p) h = Inr True \<longrightarrow>
      get_password_hash c salt p = Inr h \<and> verify_password c p h = Inr True) \<and>
   (\<forall>e. ctx_hash c salt (take 72 p) = Inl e \<longrightarrow> get_password_hash c salt p = Inl e) \<and>
   (\<forall>tok db'.
      register_user c cfg db
        \<lparr> UserCreate_email = e, UserCreate_password = p \<rparr> uuid salt now now_token
        = (Inr tok, db') \<and>
      (\<forall>x. ctx_hash c salt (take 72 p) = Inr x \<longrightarrow> ctx_verify c (take 72 p) x = Inr True) \<longrightarrow>
      login_for_access_token_0214 c cfg db'
        \<lparr> form_username = e, form_password = p \<rparr> now'
        = Inr \<lparr> access_token = create_access_token cfg uuid now', token_type = ''bearer'' \<rparr> \<and>
      login_for_access_token_0215 c cfg db'
        \<lparr> form_username = e, form_password = p \<rparr> now'
        = Inr \<lparr> access_token = create_access_token cfg uuid now', token_type = ''bearer'' \<rparr>)"
proof (intro conjI allI impI)
  show "get_password_hash c salt p = ctx_hash c salt (take 72 p)"
    by (simp add: get_password_hash_def)
  show "verify_password c p h = ctx_verify c (take 72 p) h"
    by (simp add: verify_password_def)
next
  fix p'
  assume "take 72 p' = take 72 p"
  then show "get_password_hash c salt p' = get_password_hash c salt p"
    and "verify_password c p' h = verify_password c p h"
    by (simp_all add: get_password_hash_def verify_password_def)
next
  assume "ctx_hash c salt (take 72 p) = Inr h \<and> ctx_verify c (take 72 p) h = Inr True"
  then show "get_password_hash c salt p = Inr h" and "verify_password c p h = Inr True"
    by (simp_all add: get_password_hash_def verify_password_def)
next
  fix e
  assume "ctx_hash c salt (take 72 p) = Inl e"
  then show "get_password_hash c salt p = Inl e"
    by (simp add: get_password_hash_def)
next
  fix tok db'
  let ?user_in = "\<lparr> UserCreate_email = e, UserCreate_password = p \<rparr>"
  assume a: "register_user c cfg db ?user_in uuid salt now now_token = (Inr tok, db') \<and>
      (\<forall>x. ctx_hash c salt (take 72 p) = Inr x \<longrightarrow> ctx_verify c (take 72 p) x = Inr True)"
  then have reg: "register_user c cfg db ?user_in uuid salt now now_token = (Inr tok, db')"
    by simp
  from register_user_success [OF reg] obtain x where
    none: "filter (\<lambda>u. User_email u = e) (users db) = []" and
    x: "get_password_hash c salt p = Inr x" and
    db': "db' = db\<lparr>users := users db @
                      [\<lparr> User_id = uuid, User_email = e,
                         User_hashed_password = x, User_name = None, User_created_at = now \<rparr>]\<rparr>"
    by auto
  from x have "ctx_hash c salt (take 72 p) = Inr x"
    by (simp add: get_password_hash_def)
  with a have "ctx_verify c (take 72 p) x = Inr True"
    by simp
  then have v: "verify_password c p x = Inr True"
    by (simp add: verify_password_def)
  show "login_for_access_token_0214 c cfg db'
              \<lparr> form_username = e, form_password = p \<rparr> now'
              = Inr \<lparr> access_token = create_access_token cfg uuid now', token_type = ''bearer'' \<rparr>"
    by (simp add: login_for_access_token_0214_def db' none first_def v)
  show "login_for_access_token_0215 c cfg db'
              \<lparr> form_username = e, form_password = p \<rparr> now'
              = Inr \<lparr> access_token = create_access_token cfg uuid now', token_type = ''bearer'' \<rparr>"
    by (simp add: login_for_access_token_0215_def db' none first_def v)
qed

text \<open>
  The theorem at a password of 100 characters, which the demo scheme itself refuses: the
  wrappers hash and verify its first 72 characters, a password of 80 characters with the
  same beginning verifies against the same hash, and the registration of a new email
  with the long password in the demo store is followed by a successful login.
\<close>

theorem verify_password_same_truncation_witness:
  "ctx_hash demo_context ''ab'' (replicate 100 CHR ''x'') = Inl (Raised ''ValueError'') \<and>
   get_password_hash demo_context ''ab'' (replicate 100 CHR ''x'')
     = Inr (''$demo$ab'' @ replicate 72 CHR ''x'') \<and>
   verify_password demo_context (replicate 100 CHR ''x'') (''$demo$ab'' @ replicate 72 CHR ''x'')
     = Inr True \<and>
   verify_password demo_context (replicate 80 CHR ''x'') (''$demo$ab'' @ replicate 72 CHR ''x'')
     = Inr True \<and>
   verify_password demo_context (replicate 71 CHR ''x'') (''$demo$ab'' @ replicate 72 CHR ''x'')
     = Inr False \<and>
   get_password_hash demo_context ''ab'' (CHR 0x00 # replicate 100 CHR ''x'')
     = Inl (Raised ''NullPasswordError'') \<and>
   fst (register_user demo_context demo_config demo_db
          \<lparr> UserCreate_email = ''c@x.com'', UserCreate_password = replicate 100 CHR ''x'' \<rparr>
          ''c-3'' ''ab'' 600 601)
     = Inr \<lparr> access_token = create_access_token demo_config ''c-3'' 601, token_type = ''bearer'' \<rparr> \<and>
   login_for_access_token_0214 demo_context demo_config
      (snd (register_user demo_context demo_config demo_db
          \<lparr> UserCreate_email = ''c@x.com'', UserCreate_password = replicate 100 CHR ''x'' \<rparr>
          ''c-3'' ''ab'' 600 601))
      \<lparr> form_username = ''c@x.com'', form_password = replicate 100 CHR ''x'' \<rparr> 700
     = Inr \<lparr> access_token = create_access_token demo_config ''c-3'' 700, token_type = ''bearer'' \<rparr> \<and>
   login_for_access_token_0215 demo_context demo_config
      (snd (register_user demo_context demo_config demo_db
          \<lparr> UserCreate_email = ''c@x.com'', UserCreate_password = replicate 100 CHR ''x'' \<rparr>
          ''c-3'' ''ab'' 600 601))
      \<lparr> form_username = ''c@x.com'', form_password = replicate 100 CHR ''x'' \<rparr> 700
     = Inr \<lparr> access_token = create_access_token demo_config ''c-3'' 700, token_type = ''bearer'' \<rparr>"
proof -
  let ?p = "replicate 100 CHR ''x''"
  let ?h = "''$demo$ab'' @ replicate 72 CHR ''x''"
  let ?reg = "register_user demo_context demo_config demo_db
          \<lparr> UserCreate_email = ''c@x.com'', UserCreate_password = ?p \<rparr> ''c-3'' ''ab'' 600 601"
  note inst = verify_password_same_truncation [of demo_context "''ab''" ?p ?h demo_config demo_db
      "''c@x.com''" "''c-3''" 600 601 700]
  have r: "ctx_hash demo_context ''ab'' ?p = Inl (Raised ''ValueError'')"
    by (simp add: demo_context_def)
  have sh: "ctx_hash demo_context ''ab'' (take 72 ?p) = Inr ?h"
    by (simp add: demo_context_def)
  have sv: "ctx_verify demo_context (take 72 ?p) ?h = Inr True"
    by (simp add: demo_context_def)
  from inst sh sv
  have g: "get_password_hash demo_context ''ab'' ?p = Inr ?h"
    and v: "verify_password demo_context ?p ?h = Inr True"
    by blast+
  have "take 72 (replicate 80 CHR ''x'') = take 72 ?p"
    by simp
  with inst v have v80: "verify_password demo_context (replicate 80 CHR ''x'') ?h = Inr True"
    by metis
  have "ctx_verify demo_context (take 72 (replicate 71 CHR ''x'')) ?h = Inr False"
    by (simp add: demo_context_def)
  with verify_password_same_truncation [of demo_context _ "replicate 71 CHR ''x''" ?h]
  have v71: "verify_password demo_context (replicate 71 CHR ''x'') ?h = Inr False"
    by simp
  have "ctx_hash demo_context ''ab'' (take 72 (CHR 0x00 # ?p)) = Inl (Raised ''NullPasswordError'')"
    by (simp add: demo_context_def)
  with verify_password_same_truncation [of demo_context "''ab''" "CHR 0x00 # ?p"]
  have n: "get_password_hash demo_context ''ab'' (CHR 0x00 # ?p) = Inl (Raised ''NullPasswordError'')"
    by blast
  have f: "fst ?reg
     = Inr \<lparr> access_token = create_access_token demo_config ''c-3'' 601, token_type = ''bearer'' \<rparr>"
    by (simp add: register_user_def g first_def demo_db_def alice_def bob_def insert_user_def)
  then have reg: "?reg = (Inr \<lparr> access_token = create_access_token demo_config ''c-3'' 601,
                            token_type = ''bearer'' \<rparr>, snd ?reg)"
    by (metis prod.collapse)
  from sh sv
  have acc: "\<forall>x. ctx_hash demo_context ''ab'' (take 72 ?p) = Inr x
               \<longrightarrow> ctx_verify demo_context (take 72 ?p) x = Inr True"
    by simp
  from inst reg acc
  have l: "login_for_access_token_0214 demo_context demo_config (snd ?reg)
      \<lparr> form_username = ''c@x.com'', form_password = ?p \<rparr> 700
     = Inr \<lparr> access_token = create_access_token demo_config ''c-3'' 700, token_type = ''bearer'' \<rparr> \<and>
    login_for_access_token_0215 demo_context demo_config (snd ?reg)
      \<lparr> form_username = ''c@x.com'', form_password = ?p \<rparr> 700
     = Inr \<lparr> access_token = create_access_token demo_config ''c-3'' 700, token_type = ''bearer'' \<rparr>"
    by blast
  from r g v v80 v71 n f l show ?thesis by simp
qed

section \<open>Credential hasher: malformed hashes\<close>

text \<open>
  Claim C8, as stated: \<open>verify_password\<close> never raises and returns \<open>False\<close> on a string that
  is not a hash of the scheme. The function calls the scheme's \<open>verify\<close> with nothing
  around it, so an exception of the scheme is the outcome of \<open>verify_password\<close>: with a
  scheme that, like passlib's context, raises on a string it cannot identify, the call
  below ends in that exception and not in \<open>False\<close>.
\<close>

theorem verify_password_malformed_hash_raises:
  "verify_password demo_context ''password123'' ''not-a-hash'' = Inl (Raised ''UnknownHashError'')"
  by (simp add: verify_password_def demo_context_def)

text \<open>
  Claim C8, amended: the outcome of \<open>verify_password\<close> is the outcome of the scheme's
  \<open>verify\<close> on the first 72 characters of the plain text and the given hash, unchanged:
  the scheme's exception when it raises, the scheme's boolean when it returns one. So
  \<open>verify_password\<close> raises exactly when the scheme does, and two plain texts with the
  same first 72 characters have the same outcome.
\<close>

theorem verify_password_outcome:
  "(\<forall>e. ctx_verify c (take 72 plain) h = Inl e \<longrightarrow> verify_password c plain h = Inl e) \<and>
   (\<forall>b. ctx_verify c (take 72 plain) h = Inr b \<longrightarrow> verify_password c plain h = Inr b) \<and>
   (\<forall>plain'. take 72 plain' = take 72 plain \<longrightarrow>
      verify_password c plain' h = verify_password c plain h)"
  by (simp add: verify_password_def)

theorem verify_password_outcome_witness:
  "ctx_verify demo_context (take 72 ''hunter2hunter2'') ''$demo$..password123'' = Inr False \<and>
   verify_password demo_context ''hunter2hunter2'' ''$demo$..password123'' = Inr False \<and>
   ctx_verify demo_context (take 72 ''password123'') ''garbage'' = Inl (Raised ''UnknownHashError'') \<and>
   verify_password demo_context ''password123'' ''garbage'' = Inl (Raised ''UnknownHashError'') \<and>
   take 72 (replicate 80 CHR ''x'') = take 72 (replicate 100 CHR ''x'') \<and>
   verify_password demo_context (replicate 80 CHR ''x'') (''$demo$ab'' @ replicate 72 CHR ''x'')
     = verify_password demo_context (replicate 100 CHR ''x'') (''$demo$ab'' @ replicate 72 CHR ''x'')"
proof -
  have 1: "ctx_verify demo_context (take 72 ''hunter2hunter2'') ''$demo$..password123'' = Inr False"
    by (simp add: demo_context_def)
  have 2: "ctx_verify demo_context (take 72 ''password123'') ''garbage''
             = Inl (Raised ''UnknownHashError'')"
    by (simp add: demo_context_def)
  have 5: "take 72 (replicate 80 CHR ''x'') = take 72 (replicate 100 CHR ''x'')"
    by simp
  from 1 verify_password_outcome [of demo_context "''hunter2hunter2''" "''$demo$..password123''"]
  have 3: "verify_password demo_context ''hunter2hunter2'' ''$demo$..password123'' = Inr False"
    by blast
  from 2 verify_password_outcome [of demo_context "''password123''" "''garbage''"]
  have 4: "verify_password demo_context ''password123'' ''garbage''
             = Inl (Raised ''UnknownHashError'')"
    by blast
  from 5 verify_password_outcome [of demo_context "replicate 100 CHR ''x''"
                                     "''$demo$ab'' @ replicate 72 CHR ''x''"]
  have 6: "verify_password demo_context (replicate 80 CHR ''x'') (''$demo$ab'' @ replicate 72 CHR ''x'')
     = verify_password demo_context (replicate 100 CHR ''x'') (''$demo$ab'' @ replicate 72 CHR ''x'')"
    by blast
  from 1 2 3 4 5 6 show ?thesis by blast
qed

section \<open>Token service: expiry\<close>

text \<open>
  Claim C9. Verification at a time \<open>now\<close> at or after the token's \<open>expires_at\<close> fails with
  \<open>InvalidToken\<close>, whatever the signature is; so does a token issued by the service once
  its lifetime has passed. Every failure of the verification is that one error, which
  the taxonomy counts as \<open>Unauthenticated\<close>.
\<close>

theorem verify_token_expired:
  "(expires_at p \<le> now \<longrightarrow> verify_token cfg (Signed p sig) now = Inl InvalidToken) \<and>
   (issued + minutes (ACCESS_TOKEN_EXPIRE_MINUTES cfg) \<le> now \<longrightarrow>
      verify_token cfg (create_access_token cfg sub issued) now = Inl InvalidToken) \<and>
   (\<forall>e. verify_token cfg tok now = Inl e \<longrightarrow> e = InvalidToken \<and> kind_of e = Unauthenticated)"
  by (auto simp add: verify_token_def create_access_token_def Let_def split: token.splits if_splits)

theorem verify_token_expired_witness:
  "verify_token demo_config
     (Signed \<lparr> subject = Some ''a-1'', issued_at = 0, expires_at = 1000 \<rparr>
        (HS256 ''s3cret'' \<lparr> subject = Some ''a-1'', issued_at = 0, expires_at = 1000 \<rparr>)) 1000
     = Inl InvalidToken \<and>
   verify_token demo_config (create_access_token demo_config ''a-1'' 0) 1800000000
     = Inl InvalidToken \<and>
   verify_token demo_config (create_access_token demo_config ''a-1'' 0) 1799999999
     = Inr \<lparr> subject = Some ''a-1'', issued_at = 0, expires_at = 1800000000 \<rparr> \<and>
   verify_token demo_config (Malformed ''x.y.z'') 5 = Inl InvalidToken \<and>
   kind_of InvalidToken = Unauthenticated"
proof -
  let ?p = "\<lparr> subject = Some ''a-1'', issued_at = 0, expires_at = 1000 \<rparr>"
  have e: "expires_at ?p \<le> 1000" by simp
  have l: "0 + minutes (ACCESS_TOKEN_EXPIRE_MINUTES demo_config) \<le> 1800000000"
    by (simp add: minutes_def demo_config_def)
  have m: "verify_token demo_config (Malformed ''x.y.z'') 5 = Inl InvalidToken"
    by (simp add: verify_token_def)
  from e verify_token_expired [of ?p 1000 demo_config "HS256 ''s3cret'' ?p"]
  have 1: "verify_token demo_config (Signed ?p (HS256 ''s3cret'' ?p)) 1000 = Inl InvalidToken"
    by blast
  from l verify_token_expired [of _ 1800000000 demo_config _ 0 "''a-1''"]
  have 2: "verify_token demo_config (create_access_token demo_config ''a-1'' 0) 1800000000
             = Inl InvalidToken"
    by blast
  from m verify_token_expired [of _ 5 demo_config _ _ _ "Malformed ''x.y.z''"]
  have 3: "kind_of InvalidToken = Unauthenticated"
    by blast
  have 4: "verify_token demo_config (create_access_token demo_config ''a-1'' 0) 1799999999
     = Inr \<lparr> subject = Some ''a-1'', issued_at = 0, expires_at = 1800000000 \<rparr>"
    by (simp add: verify_token_fresh minutes_def demo_config_def)
  from 1 2 3 4 m show ?thesis by blast
qed

section \<open>Login: one outcome for both failures\<close>






section \<open>Registration: one identity per email\<close>

lemma register_user_conflict:
  assumes "u \<in> set (users db)" and "User_email u = UserCreate_email user_in"
  shows "register_user c cfg db user_in uuid salt now now_token
           = (Inl (HTTPException 409 ''Email already registered'' None), db)"
proof -
  from assms have "u \<in> set (filter (\<lambda>v. User_email v = UserCreate_email user_in) (users db))"
    by simp
  then have "filter (\<lambda>v. User_email v = UserCreate_email user_in) (users db) \<noteq> []"
    by (metis empty_iff list.set(1))
  then obtain x where "first (filter (\<lambda>v. User_email v = UserCreate_email user_in) (users db)) = Some x"
    by (cases "filter (\<lambda>v. User_email v = UserCreate_email user_in) (users db)")
       (simp_all add: first_def)
  then show ?thesis by (simp add: register_user_def)
qed

lemma register_user_failure_keeps_store:
  "fst (register_user c cfg db user_in uuid salt now now_token) = Inl e \<Longrightarrow>
   snd (register_user c cfg db user_in uuid salt now now_token) = db"
  by (simp add: register_user_def Let_def split: option.splits sum.splits)

lemma register_user_email_unique:
  assumes "email_unique db"
  shows "email_unique (snd (register_user c cfg db user_in uuid salt now now_token))"
proof (cases "fst (register_user c cfg db user_in uuid salt now now_token)")
  case (Inl e)
  with assms show ?thesis by (simp add: register_user_failure_keeps_store)
next
  case (Inr tok)
  then have "register_user c cfg db user_in uuid salt now now_token
               = (Inr tok, snd (register_user c cfg db user_in uuid salt now now_token))"
    by (metis prod.collapse)
  from register_user_success [OF this] obtain h where
    none: "filter (\<lambda>u. User_email u = UserCreate_email user_in) (users db) = []" and
    db': "snd (register_user c cfg db user_in uuid salt now now_token) = db\<lparr>users := users db @
                      [\<lparr> User_id = uuid, User_email = UserCreate_email user_in,
                         User_hashed_password = h, User_name = None, User_created_at = now \<rparr>]\<rparr>"
    by blast
  from none have "UserCreate_email user_in \<notin> set (map User_email (users db))"
    by (auto simp add: filter_empty_conv)
  with assms show ?thesis by (simp add: db' email_unique_def)
qed

text \<open>
  Claim C4. When an identity with email \<open>e\<close> is stored, \<open>register_user\<close> with \<open>e\<close> raises
  409 \<open>Email already registered\<close> (a \<open>Conflict\<close>) whatever the password, the identifier
  drawn and the salt are, and leaves the store as it was: the lookup comes first, and
  neither the hashing nor the insert is reached. In particular a second registration of
  an email that was just registered fails so. Any failure of \<open>register_user\<close> leaves the
  store unchanged; a store with unique emails has unique emails after \<open>register_user\<close>;
  and the store itself refuses a row whose email is taken, by the column's unique
  constraint.
\<close>

theorem register_existing_email_conflict:
  "(u \<in> set (users db) \<and> User_email u = e \<longrightarrow>
      register_user c cfg db \<lparr> UserCreate_email = e, UserCreate_password = p \<rparr> uuid salt now now_token
        = (Inl (HTTPException 409 ''Email already registered'' None), db)) \<and>
   (register_user c cfg db \<lparr> UserCreate_email = e, UserCreate_password = p1 \<rparr> uuid1 salt1 now1 now_token1
        = (Inr tok, db') \<longrightarrow>
      register_user c cfg db' \<lparr> UserCreate_email = e, UserCreate_password = p \<rparr> uuid salt now now_token
        = (Inl (HTTPException 409 ''Email already registered'' None), db')) \<and>
   kind_of (HTTPException 409 ''Email already registered'' None) = Conflict \<and>
   (\<forall>err. fst (register_user c cfg db user_in uuid salt now now_token) = Inl err \<longrightarrow>
      snd (register_user c cfg db user_in uuid salt now now_token) = db) \<and>
   (email_unique db \<longrightarrow>
      email_unique (snd (register_user c cfg db user_in uuid salt now now_token))) \<and>
   (User_email row \<in> set (map User_email (users db)) \<longrightarrow> insert_user db row = Inl IntegrityError)"
proof (intro conjI impI allI)
  assume "u \<in> set (users db) \<and> User_email u = e"
  then have "u \<in> set (users db)"
    and "User_email u = UserCreate_email \<lparr> UserCreate_email = e, UserCreate_password = p \<rparr>"
    by simp_all
  then show "register_user c cfg db \<lparr> UserCreate_email = e, UserCreate_password = p \<rparr> uuid salt now now_token
        = (Inl (HTTPException 409 ''Email already registered'' None), db)"
    by (rule register_user_conflict)
next
  assume reg: "register_user c cfg db \<lparr> UserCreate_email = e, UserCreate_password = p1 \<rparr> uuid1 salt1 now1 now_token1
        = (Inr tok, db')"
  from register_user_success [OF reg] obtain h where
    db': "db' = db\<lparr>users := users db @
                      [\<lparr> User_id = uuid1, User_email = e,
                         User_hashed_password = h, User_name = None, User_created_at = now1 \<rparr>]\<rparr>"
    by auto
  let ?u = "\<lparr> User_id = uuid1, User_email = e,
                         User_hashed_password = h, User_name = None, User_created_at = now1 \<rparr>"
  have "?u \<in> set (users db')" and "User_email ?u = UserCreate_email \<lparr> UserCreate_email = e, UserCreate_password = p \<rparr>"
    by (simp_all add: db')
  then show "register_user c cfg db' \<lparr> UserCreate_email = e, UserCreate_password = p \<rparr> uuid salt now now_token
        = (Inl (HTTPException 409 ''Email already registered'' None), db')"
    by (rule register_user_conflict)
next
  show "kind_of (HTTPException 409 ''Email already registered'' None) = Conflict" by simp
next
  fix err
  assume "fst (register_user c cfg db user_in uuid salt now now_token) = Inl err"
  then show "snd (register_user c cfg db user_in uuid salt now now_token) = db"
    by (rule register_user_failure_keeps_store)
next
  assume "email_unique db"
  then show "email_unique (snd (register_user c cfg db user_in uuid salt now now_token))"
    by (rule register_user_email_unique)
next
  assume "User_email row \<in> set (map User_email (users db))"
  then show "insert_user db row = Inl IntegrityError"
    by (simp add: insert_user_def)
qed

text \<open>
  The theorem in the demo store: Alice's email again, a fresh email registered twice, a
  direct insert of a row with Bob's email, and a registration that fails at the insert
  because the identifier drawn is Alice's.
\<close>

theorem register_existing_email_conflict_witness:
  "alice \<in> set (users demo_db) \<and> User_email alice = ''a@x.com'' \<and> email_unique demo_db \<and>
   register_user demo_context demo_config demo_db
     \<lparr> UserCreate_email = ''a@x.com'', UserCreate_password = ''another-password'' \<rparr>
     ''z-9'' ''zz'' 900 901
     = (Inl (HTTPException 409 ''Email already registered'' None), demo_db) \<and>
   email_unique (snd (register_user demo_context demo_config demo_db
     \<lparr> UserCreate_email = ''c@x.com'', UserCreate_password = ''password123'' \<rparr>
     ''c-3'' ''ab'' 600 601)) \<and>
   register_user demo_context demo_config
     (snd (register_user demo_context demo_config demo_db
       \<lparr> UserCreate_email = ''c@x.com'', UserCreate_password = ''password123'' \<rparr>
       ''c-3'' ''ab'' 600 601))
     \<lparr> UserCreate_email = ''c@x.com'', UserCreate_password = ''another-password'' \<rparr>
     ''z-9'' ''zz'' 900 901
     = (Inl (HTTPException 409 ''Email already registered'' None),
        snd (register_user demo_context demo_config demo_db
          \<lparr> UserCreate_email = ''c@x.com'', UserCreate_password = ''password123'' \<rparr>
          ''c-3'' ''ab'' 600 601)) \<and>
   insert_user demo_db (bob\<lparr>User_id := ''z-9''\<rparr>) = Inl IntegrityError \<and>
   fst (register_user demo_context demo_config demo_db
     \<lparr> UserCreate_email = ''d@x.com'', UserCreate_password = ''password123'' \<rparr>
     ''a-1'' ''ab'' 600 601) = Inl IntegrityError \<and>
   snd (register_user demo_context demo_config demo_db
     \<lparr> UserCreate_email = ''d@x.com'', UserCreate_password = ''password123'' \<rparr>
     ''a-1'' ''ab'' 600 601) = demo_db"
proof -
  let ?reg = "register_user demo_context demo_config demo_db
       \<lparr> UserCreate_email = ''c@x.com'', UserCreate_password = ''password123'' \<rparr>
       ''c-3'' ''ab'' 600 601"
  have 1: "alice \<in> set (users demo_db) \<and> User_email alice = ''a@x.com''"
    by (simp add: demo_db_def alice_def)
  have 2: "email_unique demo_db"
    by (simp add: email_unique_def demo_db_def alice_def bob_def)
  have 3: "fst ?reg = Inr \<lparr> access_token = create_access_token demo_config ''c-3'' 601,
                            token_type = ''bearer'' \<rparr>"
    by (simp add: register_user_def get_password_hash_def demo_context_def first_def
                  demo_db_def alice_def bob_def insert_user_def)
  then have 4: "?reg = (Inr \<lparr> access_token = create_access_token demo_config ''c-3'' 601,
                            token_type = ''bearer'' \<rparr>, snd ?reg)"
    by (metis prod.collapse)
  have 5: "User_email (bob\<lparr>User_id := ''z-9''\<rparr>) \<in> set (map User_email (users demo_db))"
    by (simp add: demo_db_def alice_def bob_def)
  from 1 register_existing_email_conflict
         [of alice demo_db "''a@x.com''" demo_context demo_config "''another-password''"
             "''z-9''" "''zz''" 900 901]
  have a: "register_user demo_context demo_config demo_db
     \<lparr> UserCreate_email = ''a@x.com'', UserCreate_password = ''another-password'' \<rparr>
     ''z-9'' ''zz'' 900 901
     = (Inl (HTTPException 409 ''Email already registered'' None), demo_db)"
    by blast
  from 4 register_existing_email_conflict
         [of _ demo_db "''c@x.com''" demo_context demo_config "''another-password''"
             "''z-9''" "''zz''" 900 901 "''password123''" "''c-3''" "''ab''" 600 601 _ "snd ?reg"]
  have b: "register_user demo_context demo_config (snd ?reg)
     \<lparr> UserCreate_email = ''c@x.com'', UserCreate_password = ''another-password'' \<rparr>
     ''z-9'' ''zz'' 900 901
     = (Inl (HTTPException 409 ''Email already registered'' None), snd ?reg)"
    by blast
  from 2 register_existing_email_conflict
         [of _ demo_db _ demo_context demo_config _ "''c-3''" "''ab''" 600 601 _ _ _ _ _ _ _
             "\<lparr> UserCreate_email = ''c@x.com'', UserCreate_password = ''password123'' \<rparr>"]
  have c: "email_unique (snd ?reg)"
    by blast
  from 5 register_existing_email_conflict
         [of _ demo_db _ _ _ _ _ _ _ _ _ _ _ _ _ _ _ _ "bob\<lparr>User_id := ''z-9''\<rparr>"]
  have d: "insert_user demo_db (bob\<lparr>User_id := ''z-9''\<rparr>) = Inl IntegrityError"
    by blast
  have 6: "fst (register_user demo_context demo_config demo_db
     \<lparr> UserCreate_email = ''d@x.com'', UserCreate_password = ''password123'' \<rparr>
     ''a-1'' ''ab'' 600 601) = Inl IntegrityError"
    by (simp add: register_user_def get_password_hash_def demo_context_def first_def
                  demo_db_def alice_def bob_def insert_user_def)
  from 6 register_existing_email_conflict
         [of _ demo_db _ demo_context demo_config _ "''a-1''" "''ab''" 600 601 _ _ _ _ _ _ _
             "\<lparr> UserCreate_email = ''d@x.com'', UserCreate_password = ''password123'' \<rparr>"]
  have e: "snd (register_user demo_context demo_config demo_db
     \<lparr> UserCreate_email = ''d@x.com'', UserCreate_password = ''password123'' \<rparr>
     ''a-1'' ''ab'' 600 601) = demo_db"
    by blast
  from 1 2 a b c d 6 e show ?thesis by blast
qed

section \<open>Identity resolver\<close>

text \<open>
  The later version of \<open>get_current_user\<close> fails only as \<open>Unauthenticated\<close>, whether the
  token is bad, carries no subject, or names an identity that is not stored. The earlier
  version answers the last case with 404.
\<close>

lemma get_current_user_0215_failures:
  "get_current_user_0215 cfg db tok now = Inl e \<Longrightarrow> kind_of e = Unauthenticated"
  by (auto simp add: get_current_user_0215_def verify_token_def
           split: sum.splits option.splits if_splits token.splits)

lemma get_current_user_0214_unknown_subject:
  assumes "verify_token cfg tok now = Inr p" and "subject p = Some s"
    and "s \<notin> set (map User_id (users db))"
  shows "get_current_user_0214 cfg db tok now = Inl (HTTPException 404 ''User not found'' None)"
proof -
  from assms(3) have "filter (\<lambda>u. User_id u = s) (users db) = []"
    by (auto simp add: filter_empty_conv)
  with assms(1,2) show ?thesis
    by (simp add: get_current_user_0214_def first_def)
qed

text \<open>
  Claim C3 says that resolving a token whose subject maps to no stored identity fails as
  \<open>Unauthenticated\<close> and not as \<open>NotFound\<close>. The version of 2026-02-14 does otherwise: for
  a valid, unexpired token of an identity that is not in the store it raises 404
  \<open>User not found\<close>, while a malformed token fails as \<open>Unauthenticated\<close>, so the caller
  can tell the two apart. The version of 2026-02-15 raises 401 on the same input.
\<close>

theorem get_current_user_0214_deleted_account:
  "get_current_user_0214 demo_config demo_db (create_access_token demo_config ''gone-9'' 0) 1000
     = Inl (HTTPException 404 ''User not found'' None) \<and>
   kind_of (HTTPException 404 ''User not found'' None) = NotFound \<and>
   get_current_user_0214 demo_config demo_db (Malformed ''x.y.z'') 1000 = Inl InvalidToken \<and>
   kind_of InvalidToken = Unauthenticated \<and>
   get_current_user_0215 demo_config demo_db (create_access_token demo_config ''gone-9'' 0) 1000
     = Inl (HTTPException 401 ''Could not validate credentials'' None)"
proof -
  have v: "verify_token demo_config (create_access_token demo_config ''gone-9'' 0) 1000
             = Inr \<lparr> subject = Some ''gone-9'', issued_at = 0,
                     expires_at = 0 + minutes (ACCESS_TOKEN_EXPIRE_MINUTES demo_config) \<rparr>"
    by (rule verify_token_fresh) (simp add: minutes_def demo_config_def)
  have m: "verify_token demo_config (Malformed ''x.y.z'') 1000 = Inl InvalidToken"
    by (simp add: verify_token_def)
  have 1: "get_current_user_0214 demo_config demo_db (create_access_token demo_config ''gone-9'' 0) 1000
     = Inl (HTTPException 404 ''User not found'' None)"
    by (simp add: get_current_user_0214_def v first_def demo_db_def alice_def bob_def)
  have 2: "get_current_user_0215 demo_config demo_db (create_access_token demo_config ''gone-9'' 0) 1000
     = Inl (HTTPException 401 ''Could not validate credentials'' None)"
    by (simp add: get_current_user_0215_def v first_def demo_db_def alice_def bob_def)
  have 3: "get_current_user_0214 demo_config demo_db (Malformed ''x.y.z'') 1000 = Inl InvalidToken"
    by (simp add: get_current_user_0214_def m)
  from 1 2 3 show ?thesis by simp
qed

section \<open>Creating a task\<close>

text \<open>
  Claim C6, as stated, has \<open>created_at\<close> equal to \<open>updated_at\<close> on the created task. The
  handler reads the clock once for each field, so the two differ whenever the readings
  do: here they are 1000 and 1001.
\<close>

theorem create_task_timestamps_differ:
  "Task_created_at (fst (create_task demo_db alice (TaskCreate_of ''T1'' None None) 1000 1001))
     \<noteq> Task_updated_at (fst (create_task demo_db alice (TaskCreate_of ''T1'' None None) 1000 1001))"
  by (simp add: create_task_def Let_def)

text \<open>
  Claim C6, amended: the created task has \<open>completed\<close> true exactly when the request's
  status is \<open>completed\<close> (\<open>pending\<close>, \<open>in_progress\<close> and no status give false), its owner
  is the creating identity, and \<open>created_at\<close> and \<open>updated_at\<close> are the first and the
  second of two successive clock readings taken during creation: equal when the
  readings are, and \<open>created_at \<le> updated_at\<close> when the clock did not go back between
  them. The task is appended to the table and nothing else changes.
\<close>

theorem create_task_fields:
  "(let (t, db') = create_task db current_user (TaskCreate_of title description status)
                      now_created now_updated
    in Task_completed t = (status = Some completed) \<and>
       Task_user_id t = User_id current_user \<and>
       Task_title t = title \<and> Task_description t = description \<and>
       Task_created_at t = now_created \<and>
       Task_updated_at t = now_updated \<and>
       (now_created = now_updated \<longrightarrow> Task_created_at t = Task_updated_at t) \<and>
       (now_created \<le> now_updated \<longrightarrow> Task_created_at t \<le> Task_updated_at t) \<and>
       tasks db' = tasks db @ [t] \<and> users db' = users db)"
  by (cases status) (simp_all add: create_task_def TaskCreate_of_def Let_def)

theorem create_task_fields_witness:
  "Task_completed (fst (create_task demo_db alice (TaskCreate_of ''T1'' None (Some completed)) 1000 1001)) \<and>
   \<not> Task_completed (fst (create_task demo_db alice (TaskCreate_of ''T1'' None (Some in_progress)) 1000 1001)) \<and>
   \<not> Task_completed (fst (create_task demo_db alice (TaskCreate_of ''T1'' None None) 1000 1001)) \<and>
   Task_user_id (fst (create_task demo_db alice (TaskCreate_of ''T1'' None None) 1000 1001)) = ''a-1'' \<and>
   Task_created_at (fst (create_task demo_db alice (TaskCreate_of ''T1'' None None) 1000 1001)) = 1000 \<and>
   Task_updated_at (fst (create_task demo_db alice (TaskCreate_of ''T1'' None None) 1000 1001)) = 1001 \<and>
   Task_created_at (fst (create_task demo_db alice (TaskCreate_of ''T1'' None None) 1000 1000))
     = Task_updated_at (fst (create_task demo_db alice (TaskCreate_of ''T1'' None None) 1000 1000))"
proof -
  have a: "User_id alice = ''a-1''" by (simp add: alice_def)
  from create_task_fields [of demo_db alice "''T1''" None "Some completed" 1000 1001]
       create_task_fields [of demo_db alice "''T1''" None "Some in_progress" 1000 1001]
       create_task_fields [of demo_db alice "''T1''" None None 1000 1001]
       create_task_fields [of demo_db alice "''T1''" None None 1000 1000] a
  show ?thesis
    by (simp add: split_beta)
qed

section \<open>Updating a task\<close>

text \<open>
  Claim C5. A successful \<open>update_task\<close> returns the caller's task with that id, changed
  only in what the request supplied: a field the request left out keeps its value (so a
  request with only a title leaves description and \<open>completed\<close> alone), a supplied
  title or description is stored, a supplied status is not stored but sets \<open>completed\<close>
  to whether it is \<open>completed\<close>. The id, the owner and \<open>created_at\<close> keep their values,
  \<open>updated_at\<close> becomes \<open>now\<close> whichever fields were supplied, and in the store only the
  row with that id is replaced.
\<close>

theorem update_task_frame:
  assumes upd: "update_task db current_user i task_update now = (Inr t', db')"
  shows "\<exists>t. get_task db current_user i = Inr t \<and>
           Task_id t' = Task_id t \<and> Task_user_id t' = Task_user_id t \<and>
           Task_created_at t' = Task_created_at t \<and>
           Task_updated_at t' = now \<and>
           (case TaskUpdate_title task_update of
              Unset \<Rightarrow> Task_title t' = Task_title t
            | Supplied x \<Rightarrow> x = Some (Task_title t')) \<and>
           (case TaskUpdate_description task_update of
              Unset \<Rightarrow> Task_description t' = Task_description t
            | Supplied d \<Rightarrow> Task_description t' = d) \<and>
           (case TaskUpdate_status task_update of
              Unset \<Rightarrow> Task_completed t' = Task_completed t
            | Supplied st \<Rightarrow> Task_completed t' = (st = Some completed)) \<and>
           users db' = users db \<and>
           tasks db' = map (\<lambda>r. if Task_id r = i then t' else r) (tasks db)"
proof -
  let ?q = "first (filter (\<lambda>t. Task_id t = i \<and> Task_user_id t = User_id current_user) (tasks db))"
  from upd obtain t where t: "?q = Some t"
    by (cases ?q) (simp_all add: update_task_def)
  from first_filter_Some [OF t] have i: "Task_id t = i" by simp
  have g: "get_task db current_user i = Inr t"
    by (simp add: get_task_def t)
  from upd have nn: "TaskUpdate_title task_update \<noteq> Supplied None"
    by (auto simp add: update_task_def t Let_def)
  show ?thesis
  proof (cases "TaskUpdate_title task_update")
    case Unset
    with upd t i g show ?thesis
      by (cases "TaskUpdate_description task_update"; cases "TaskUpdate_status task_update")
         (auto simp add: update_task_def Let_def update_row_def)
  next
    case (Supplied x)
    with nn obtain title where x: "x = Some title" by (cases x) auto
    with Supplied upd t i g show ?thesis
      by (cases "TaskUpdate_description task_update"; cases "TaskUpdate_status task_update")
         (auto simp add: update_task_def Let_def update_row_def)
  qed
qed

text \<open>The update succeeds for every task the caller owns unless the title is set to null.\<close>

lemma update_task_succeeds:
  assumes "get_task db current_user i = Inr t" and "TaskUpdate_title task_update \<noteq> Supplied None"
  shows "\<exists>t'. fst (update_task db current_user i task_update now) = Inr t'"
proof -
  from assms(1)
  have "first (filter (\<lambda>t. Task_id t = i \<and> Task_user_id t = User_id current_user) (tasks db)) = Some t"
    by (simp add: get_task_def split: option.splits)
  with assms(2) show ?thesis
    by (cases "TaskUpdate_title task_update") (auto simp add: update_task_def Let_def split: option.splits)
qed

theorem update_task_frame_witness:
  "update_task demo_db alice 1
     \<lparr> TaskUpdate_title = Supplied (Some ''New title''), TaskUpdate_description = Unset,
       TaskUpdate_status = Unset \<rparr> 999
     = (Inr (task1\<lparr>Task_title := ''New title'', Task_updated_at := 999\<rparr>),
        demo_db\<lparr>tasks := [task1\<lparr>Task_title := ''New title'', Task_updated_at := 999\<rparr>, task2, task3]\<rparr>) \<and>
   get_task demo_db alice 1 = Inr task1 \<and>
   Task_description (task1\<lparr>Task_title := ''New title'', Task_updated_at := 999\<rparr>) = Task_description task1 \<and>
   Task_completed (task1\<lparr>Task_title := ''New title'', Task_updated_at := 999\<rparr>) = Task_completed task1 \<and>
   Task_updated_at (task1\<lparr>Task_title := ''New title'', Task_updated_at := 999\<rparr>) = 999"
proof -
  let ?u = "\<lparr> TaskUpdate_title = Supplied (Some ''New title''), TaskUpdate_description = Unset,
       TaskUpdate_status = Unset \<rparr>"
  let ?t' = "task1\<lparr>Task_title := ''New title'', Task_updated_at := 999\<rparr>"
  have u: "update_task demo_db alice 1 ?u 999 = (Inr ?t', demo_db\<lparr>tasks := [?t', task2, task3]\<rparr>)"
    by (simp add: update_task_def first_def demo_db_def alice_def task1_def task2_def task3_def
                  update_row_def Let_def)
  have g: "get_task demo_db alice 1 = Inr task1"
    by (simp add: get_task_def first_def demo_db_def alice_def task1_def task2_def task3_def)
  from update_task_frame [OF u] g
  have "Task_description ?t' = Task_description task1 \<and>
        Task_completed ?t' = Task_completed task1 \<and> Task_updated_at ?t' = 999"
    by simp
  with u g show ?thesis by blast
qed

section \<open>Listing tasks\<close>

lemma status_filter_eq:
  "(if st = completed then filter (\<lambda>t. Task_completed t = True) q
    else if st = pending \<or> st = in_progress then filter (\<lambda>t. Task_completed t = False) q
    else q)
   = filter (\<lambda>t. Task_completed t = (st = completed)) q"
  by (cases st) simp_all

lemma list_tasks_0214_unsorted:
  "so \<noteq> Some ''created_at'' \<Longrightarrow> so \<noteq> Some ''title'' \<Longrightarrow>
   list_tasks_0214 collate db u status so =
     filter (\<lambda>t. Task_user_id t = User_id u \<and>
                 (case status of None \<Rightarrow> True | Some st \<Rightarrow> Task_completed t = (st = completed)))
       (tasks db)"
  by (cases status) (simp_all add: list_tasks_0214_def Let_def status_filter_eq conj_commute)

lemma list_tasks_0214_created_at:
  "list_tasks_0214 collate db u status (Some ''created_at'')
     = sort_key Task_created_at (list_tasks_0214 collate db u status None)"
  by (simp add: list_tasks_0214_def Let_def)

lemma list_tasks_0214_title:
  "list_tasks_0214 collate db u status (Some ''title'')
     = sort_key (\<lambda>t. collate (Task_title t)) (list_tasks_0214 collate db u status None)"
  by (simp add: list_tasks_0214_def Let_def)

lemma list_tasks_0214_mset:
  "mset (list_tasks_0214 collate db u status so) = mset (list_tasks_0214 collate db u status None)"
proof -
  consider "so = Some ''created_at''" | "so = Some ''title''"
    | "so \<noteq> Some ''created_at''" "so \<noteq> Some ''title''" by blast
  then show ?thesis
  proof cases
    case 1
    then show ?thesis by (simp add: list_tasks_0214_created_at)
  next
    case 2
    then show ?thesis by (simp add: list_tasks_0214_title)
  next
    case 3
    then show ?thesis by (simp add: list_tasks_0214_unsorted)
  qed
qed

text \<open>
  Claim C10. In the version of 2026-02-14, \<open>list_tasks\<close> with \<open>sort = "created_at"\<close>
  returns the caller's tasks (those that pass the status filter) in ascending order of
  \<open>created_at\<close>, and with \<open>sort = "title"\<close> in ascending order of title under the store's
  collation. Whatever \<open>sort\<close> is, the result holds the same tasks as without it; any
  other value, and none, leaves them in the order the store returns them. The version of
  2026-02-15 has no \<open>sort\<close> parameter and returns that unordered result.
\<close>

theorem list_tasks_order:
  "sorted (map Task_created_at (list_tasks_0214 collate db u status (Some ''created_at''))) \<and>
   sorted (map (\<lambda>t. collate (Task_title t)) (list_tasks_0214 collate db u status (Some ''title''))) \<and>
   mset (list_tasks_0214 collate db u status so) = mset (list_tasks_0214 collate db u status None) \<and>
   (so \<noteq> Some ''created_at'' \<and> so \<noteq> Some ''title'' \<longrightarrow>
      list_tasks_0214 collate db u status so = list_tasks_0214 collate db u status None) \<and>
   list_tasks_0214 collate db u status None =
     filter (\<lambda>t. Task_user_id t = User_id u \<and>
                 (case status of None \<Rightarrow> True | Some st \<Rightarrow> Task_completed t = (st = completed)))
       (tasks db) \<and>
   list_tasks_0215 db u status = list_tasks_0214 collate db u status None"
proof (intro conjI impI)
  show "sorted (map Task_created_at (list_tasks_0214 collate db u status (Some ''created_at'')))"
    by (simp add: list_tasks_0214_created_at)
  show "sorted (map (\<lambda>t. collate (Task_title t)) (list_tasks_0214 collate db u status (Some ''title'')))"
    by (simp add: list_tasks_0214_title)
  show "mset (list_tasks_0214 collate db u status so) = mset (list_tasks_0214 collate db u status None)"
    by (rule list_tasks_0214_mset)
  show "list_tasks_0214 collate db u status so = list_tasks_0214 collate db u status None"
    if "so \<noteq> Some ''created_at'' \<and> so \<noteq> Some ''title''"
    using that by (simp add: list_tasks_0214_unsorted)
  show n: "list_tasks_0214 collate db u status None =
     filter (\<lambda>t. Task_user_id t = User_id u \<and>
                 (case status of None \<Rightarrow> True | Some st \<Rightarrow> Task_completed t = (st = completed)))
       (tasks db)"
    by (simp add: list_tasks_0214_unsorted)
  show "list_tasks_0215 db u status = list_tasks_0214 collate db u status None"
    unfolding n by (cases status) (simp_all add: list_tasks_0215_def Let_def conj_commute)
qed

text \<open>
  In the demo store Alice's tasks are stored as task 1 (created at 300, title \<open>T1\<close>) and
  task 3 (created at 250, title \<open>A\<close>); strings are compared character by character.
\<close>

theorem list_tasks_order_witness:
  "list_tasks_0214 (\<lambda>s. s) demo_db alice None None = [task1, task3] \<and>
   list_tasks_0214 (\<lambda>s. s) demo_db alice None (Some ''created_at'') = [task3, task1] \<and>
   list_tasks_0214 (\<lambda>s. s) demo_db alice None (Some ''title'') = [task3, task1] \<and>
   list_tasks_0214 (\<lambda>s. s) demo_db alice None (Some ''priority'') = [task1, task3] \<and>
   list_tasks_0215 demo_db alice None = [task1, task3]"
proof -
  have n: "list_tasks_0214 (\<lambda>s. s) demo_db alice None None = [task1, task3]"
    by (simp add: list_tasks_0214_def demo_db_def alice_def task1_def task2_def task3_def)
  have c: "list_tasks_0214 (\<lambda>s. s) demo_db alice None (Some ''created_at'') = [task3, task1]"
    by (simp add: list_tasks_0214_def demo_db_def alice_def task1_def task2_def task3_def)
  have t: "list_tasks_0214 (\<lambda>s. s) demo_db alice None (Some ''title'') = [task3, task1]"
    by (simp add: list_tasks_0214_def demo_db_def alice_def task1_def task2_def task3_def)
  have p: "Some ''priority'' \<noteq> Some ''created_at'' \<and> Some ''priority'' \<noteq> Some ''title''"
    by simp
  from list_tasks_order [of "\<lambda>s. s" demo_db alice None "Some ''priority''"] p n
  have "list_tasks_0214 (\<lambda>s. s) demo_db alice None (Some ''priority'') = [task1, task3]
        \<and> list_tasks_0215 demo_db alice None = [task1, task3]"
    by simp
  with n c t show ?thesis by blast
qed

section \<open>Ownership: another identity's task is not found\<close>

text \<open>The primary key of the task table is kept by every handler that writes.\<close>


lemma next_task_id_fresh: "next_task_id db \<notin> set (map Task_id (tasks db))"
proof (cases "tasks db = []")
  case True
  then show ?thesis by simp
next
  case False
  have "i < next_task_id db" if "i \<in> set (map Task_id (tasks db))" for i
  proof -
    from that have "i \<le> Max (set (map Task_id (tasks db)))" by (intro Max_ge) simp_all
    with False show ?thesis by (simp add: next_task_id_def)
  qed
  then show ?thesis by blast
qed

lemma create_task_pk: "task_pk db \<Longrightarrow> task_pk (snd (create_task db u task_in n1 n2))"
  using next_task_id_fresh [of db] by (simp add: create_task_def Let_def task_pk_def)

lemma update_row_ids: "map Task_id (tasks (update_row db t)) = map Task_id (tasks db)"
  by (simp add: update_row_def comp_def if_distrib cong: if_cong)

lemma update_task_pk: "task_pk db \<Longrightarrow> task_pk (snd (update_task db u i task_update now))"
  by (auto simp add: update_task_def Let_def task_pk_def update_row_ids
           split: option.splits field.splits)

lemma toggle_task_completion_pk: "task_pk db \<Longrightarrow> task_pk (snd (toggle_task_completion db u i now))"
  by (auto simp add: toggle_task_completion_def Let_def task_pk_def update_row_ids
           split: option.splits)

lemma delete_task_pk: "task_pk db \<Longrightarrow> task_pk (snd (delete_task db u i))"
  by (auto simp add: delete_task_def delete_row_def task_pk_def distinct_map_filter
           split: option.splits)

text \<open>
  When the lookup by id and owner finds no row, all four handlers raise the same 404 and
  write nothing; the lookup finds no row for an id that is not in the table, and none
  for the id of a task that another identity owns.
\<close>

lemma lookup_fails_not_found:
  assumes "filter (\<lambda>r. Task_id r = i \<and> Task_user_id r = User_id b) (tasks db) = []"
  shows "get_task db b i = Inl (HTTPException 404 ''Task not found'' None)"
    and "update_task db b i task_update now = (Inl (HTTPException 404 ''Task not found'' None), db)"
    and "delete_task db b i = (Inl (HTTPException 404 ''Task not found'' None), db)"
    and "toggle_task_completion db b i now = (Inl (HTTPException 404 ''Task not found'' None), db)"
  using assms
  by (simp_all add: get_task_def update_task_def delete_task_def toggle_task_completion_def first_def)

lemma lookup_other_owner:
  assumes pk: "task_pk db" and t: "t \<in> set (tasks db)" and other: "Task_user_id t \<noteq> User_id b"
  shows "filter (\<lambda>r. Task_id r = Task_id t \<and> Task_user_id r = User_id b) (tasks db) = []"
proof -
  from pk have inj: "inj_on Task_id (set (tasks db))"
    by (simp add: task_pk_def distinct_map)
  have "\<not> (Task_id r = Task_id t \<and> Task_user_id r = User_id b)" if r: "r \<in> set (tasks db)" for r
  proof
    assume a: "Task_id r = Task_id t \<and> Task_user_id r = User_id b"
    with inj r t have "r = t" by (simp add: inj_on_def)
    with a other show False by simp
  qed
  then show ?thesis by (simp add: filter_empty_conv)
qed

lemma lookup_absent_id:
  assumes "i \<notin> set (map Task_id (tasks db))"
  shows "filter (\<lambda>r. Task_id r = i \<and> Task_user_id r = User_id b) (tasks db) = []"
  using assms by (auto simp add: filter_empty_conv)

text \<open>
  Claim C1. Let \<open>t\<close> be a stored task owned by identity \<open>a\<close>, and \<open>b\<close> an identity with a
  different id. Listing as \<open>b\<close> never returns \<open>t\<close>, in either version, whatever the filter
  and the sort are. Getting, updating, deleting and toggling \<open>t\<close>'s id as \<open>b\<close> each raise
  404 \<open>Task not found\<close>, a \<open>NotFound\<close>, and leave the store unchanged; each response is
  the very one \<open>b\<close> gets for an id that no task has, so nothing distinguishes "owned by
  someone else" from "does not exist".
\<close>

theorem other_identity_task_not_found:
  assumes pk: "task_pk db"
    and t: "t \<in> set (tasks db)"
    and owner: "Task_user_id t = User_id a"
    and ab: "User_id a \<noteq> User_id b"
  shows "t \<notin> set (list_tasks_0215 db b status) \<and>
         t \<notin> set (list_tasks_0214 collate db b status so) \<and>
         get_task db b (Task_id t) = Inl (HTTPException 404 ''Task not found'' None) \<and>
         update_task db b (Task_id t) task_update now
           = (Inl (HTTPException 404 ''Task not found'' None), db) \<and>
         delete_task db b (Task_id t) = (Inl (HTTPException 404 ''Task not found'' None), db) \<and>
         toggle_task_completion db b (Task_id t) now
           = (Inl (HTTPException 404 ''Task not found'' None), db) \<and>
         kind_of (HTTPException 404 ''Task not found'' None) = NotFound \<and>
         (\<forall>i. i \<notin> set (map Task_id (tasks db)) \<longrightarrow>
              get_task db b i = get_task db b (Task_id t) \<and>
              update_task db b i task_update now = update_task db b (Task_id t) task_update now \<and>
              delete_task db b i = delete_task db b (Task_id t) \<and>
              toggle_task_completion db b i now = toggle_task_completion db b (Task_id t) now)"
proof -
  from owner ab have other: "Task_user_id t \<noteq> User_id b" by simp
  note none = lookup_other_owner [OF pk t other]
  have l15: "t \<notin> set (list_tasks_0215 db b status)"
    using other by (cases status) (simp_all add: list_tasks_0215_def Let_def)
  have "set (list_tasks_0214 collate db b status so) = set (list_tasks_0214 collate db b status None)"
    by (metis list_tasks_0214_mset set_mset_mset)
  also have "\<dots> \<subseteq> {r. Task_user_id r = User_id b}"
    by (auto simp add: list_tasks_0214_unsorted)
  finally have l14: "t \<notin> set (list_tasks_0214 collate db b status so)"
    using other by blast
  have absent: "get_task db b i = get_task db b (Task_id t) \<and>
              update_task db b i task_update now = update_task db b (Task_id t) task_update now \<and>
              delete_task db b i = delete_task db b (Task_id t) \<and>
              toggle_task_completion db b i now = toggle_task_completion db b (Task_id t) now"
    if "i \<notin> set (map Task_id (tasks db))" for i
    by (simp add: lookup_fails_not_found [OF none] lookup_fails_not_found [OF lookup_absent_id [OF that]])
  from l15 l14 absent show ?thesis
    by (simp add: lookup_fails_not_found [OF none])
qed

text \<open>
  In the demo store task 1 is Alice's: she gets it, Bob gets 404 for it as for the unused
  id 77, and Bob's list holds only his own task.
\<close>

theorem other_identity_task_not_found_witness:
  "task_pk demo_db \<and> task1 \<in> set (tasks demo_db) \<and> Task_user_id task1 = User_id alice \<and>
   User_id alice \<noteq> User_id bob \<and>
   get_task demo_db alice 1 = Inr task1 \<and>
   get_task demo_db bob 1 = Inl (HTTPException 404 ''Task not found'' None) \<and>
   get_task demo_db bob 77 = Inl (HTTPException 404 ''Task not found'' None) \<and>
   delete_task demo_db bob 1 = (Inl (HTTPException 404 ''Task not found'' None), demo_db) \<and>
   toggle_task_completion demo_db bob 1 999
     = (Inl (HTTPException 404 ''Task not found'' None), demo_db) \<and>
   task1 \<notin> set (list_tasks_0215 demo_db bob None) \<and>
   list_tasks_0215 demo_db bob None = [task2]"
proof -
  have 1: "task_pk demo_db"
    by (simp add: task_pk_def demo_db_def task1_def task2_def task3_def)
  have 2: "task1 \<in> set (tasks demo_db)"
    by (simp add: demo_db_def)
  have 3: "Task_user_id task1 = User_id alice"
    by (simp add: task1_def alice_def)
  have 4: "User_id alice \<noteq> User_id bob"
    by (simp add: alice_def bob_def)
  have 5: "get_task demo_db alice 1 = Inr task1"
    by (simp add: get_task_def first_def demo_db_def alice_def task1_def task2_def task3_def)
  have 6: "list_tasks_0215 demo_db bob None = [task2]"
    by (simp add: list_tasks_0215_def demo_db_def bob_def task1_def task2_def task3_def)
  have 7: "Task_id task1 = 1" "77 \<notin> set (map Task_id (tasks demo_db))"
    by (simp_all add: demo_db_def task1_def task2_def task3_def)
  from other_identity_task_not_found [OF 1 2 3 4, of None "\<lambda>s. s" None _ 999] 7
  have "get_task demo_db bob 1 = Inl (HTTPException 404 ''Task not found'' None) \<and>
   get_task demo_db bob 77 = Inl (HTTPException 404 ''Task not found'' None) \<and>
   delete_task demo_db bob 1 = (Inl (HTTPException 404 ''Task not found'' None), demo_db) \<and>
   toggle_task_completion demo_db bob 1 999
     = (Inl (HTTPException 404 ''Task not found'' None), demo_db) \<and>
   task1 \<notin> set (list_tasks_0215 demo_db bob None)"
    by simp
  with 1 2 3 4 5 6 show ?thesis by blast
qed

end
